theory Spec2Isabelle
  imports Main
begin

section \<open>Python strings\<close>

text \<open>
  Strings are lists of characters. \<open>split_sep c s\<close> is \<^verbatim>\<open>s.split(c)\<close> for a separator
  of one character (the empty string splits into one empty piece), \<open>str_join sep xs\<close> is
  \<^verbatim>\<open>sep.join(xs)\<close>.
\<close>

fun split_sep :: "char \<Rightarrow> string \<Rightarrow> string list" where
  "split_sep c [] = [[]]"
| "split_sep c (x # xs) =
     (if x = c then [] # split_sep c xs
      else (case split_sep c xs of
              [] \<Rightarrow> [[x]]
            | r # rs \<Rightarrow> (x # r) # rs))"

fun str_join :: "string \<Rightarrow> string list \<Rightarrow> string" where
  "str_join sep [] = []"
| "str_join sep [x] = x"
| "str_join sep (x # y # ys) = x @ sep @ str_join sep (y # ys)"

text \<open>
  \<open>slice_from i xs\<close> is the Python slice \<^verbatim>\<open>xs[i:]\<close>: a negative start counts from the
  end, and the start is clamped to the range of the list.
\<close>

definition slice_from :: "int \<Rightarrow> 'a list \<Rightarrow> 'a list" where
  "slice_from i xs =
     (let n = int (length xs);
          start = (if i < 0 then (if n + i < 0 then 0 else n + i)
                   else (if n < i then n else i))
      in drop (nat start) xs)"

text \<open>The decimal rendering of an integer, as \<^verbatim>\<open>str\<close> and an f-string give it.\<close>

function str_nat :: "nat \<Rightarrow> string" where
  "str_nat n =
     (if n < 10 then [''0123456789'' ! n]
      else str_nat (n div 10) @ [''0123456789'' ! (n mod 10)])"
  by pat_completeness auto
termination
  by (relation "measure (\<lambda>n. n)") auto

declare str_nat.simps [simp del]

definition str_int :: "int \<Rightarrow> string" where
  "str_int i = (if i < 0 then ''-'' @ str_nat (nat (- i)) else str_nat (nat i))"

text \<open>
  The keys and values of the report's mappings that the formatters render: strings and
  integers. \<open>py_str v\<close> is what \<^verbatim>\<open>f"{v}"\<close> inserts.
\<close>

datatype pyval = PyStr string | PyInt int

fun py_str :: "pyval \<Rightarrow> string" where
  "py_str (PyStr s) = s"
| "py_str (PyInt i) = str_int i"


section \<open>pathlib on POSIX\<close>

text \<open>
  A path object holds its root (\<open>''''\<close>, \<open>''/''\<close> or \<open>''//''\<close>) and its other segments;
  there is no drive on POSIX. \<open>splitroot\<close> is \<^verbatim>\<open>posixpath.splitroot\<close> without the drive,
  \<open>posix_join\<close> is \<^verbatim>\<open>posixpath.join\<close>, \<open>parse_path\<close> drops empty and \<^verbatim>\<open>.\<close> segments,
  and \<open>Path args\<close> is the constructor \<^verbatim>\<open>Path(*args)\<close>.
\<close>

record PurePath =
  root :: string
  tail :: "string list"

definition splitroot :: "string \<Rightarrow> string \<times> string" where
  "splitroot p =
     (if take 1 p = ''/'' then
        (if take 1 (drop 1 p) = ''/'' then
           (if take 1 (drop 2 p) = ''/'' then (''/'', drop 1 p)
            else (take 2 p, drop 2 p))
         else (''/'', drop 1 p))
      else ('''', p))"

fun posix_join :: "string \<Rightarrow> string list \<Rightarrow> string" where
  "posix_join path [] = path"
| "posix_join path (b # p) =
     posix_join
       (if take 1 b = ''/'' then b
        else if path = [] then path @ b
        else if last path = CHR ''/'' then path @ b
        else path @ ''/'' @ b) p"

definition parse_path :: "string \<Rightarrow> PurePath" where
  "parse_path path =
     (if path = [] then \<lparr>root = [], tail = []\<rparr>
      else (case splitroot path of
              (rt, rel) \<Rightarrow>
                \<lparr>root = rt,
                 tail = filter (\<lambda>x. x \<noteq> [] \<and> x \<noteq> ''.'') (split_sep CHR ''/'' rel)\<rparr>))"

definition Path :: "string list \<Rightarrow> PurePath" where
  "Path args = parse_path (case args of [] \<Rightarrow> [] | a # p \<Rightarrow> posix_join a p)"

definition parts :: "PurePath \<Rightarrow> string list" where
  "parts p = (if root p = [] then tail p else root p # tail p)"

definition as_posix :: "PurePath \<Rightarrow> string" where
  "as_posix p =
     (let s = root p @ str_join ''/'' (tail p) in if s = [] then ''.'' else s)"


section \<open>The path elider\<close>

definition path_to_string :: "PurePath \<Rightarrow> int \<Rightarrow> string" where
  "path_to_string path_name levels =
     (let ps = parts path_name in
      if int (length ps) > levels
      then as_posix (Path (''<...>'' # slice_from (- levels) ps))
      else as_posix path_name)"


section \<open>The detail formatter and the summary extractor\<close>

text \<open>
  A dictionary is the list of its items in iteration order. The loop of
  \<open>extract_details\<close> appends one rendered item per entry to \<open>output\<close>.
\<close>

fun extract_details_loop :: "(pyval \<times> pyval) list \<Rightarrow> string list \<Rightarrow> string list" where
  "extract_details_loop [] output = output"
| "extract_details_loop ((key, val) # items) output =
     extract_details_loop items (output @ [py_str val @ '' '' @ py_str key])"

definition extract_details :: "(pyval \<times> pyval) list \<Rightarrow> string" where
  "extract_details details = ''Details: '' @ str_join '', '' (extract_details_loop details [])"


text \<open>
  The report of the test runner. Every key that the code reads with \<^verbatim>\<open>d[key]\<close> is an
  optional field: a missing key raises \<^verbatim>\<open>KeyError\<close>, which the model returns as a value.
\<close>

datatype error = KeyError string

record CrashRecord =
  path :: "string option"
  lineno :: "int option"
  message :: "string option"

record CallRecord =
  crash :: "CrashRecord option"

record TestCaseRecord =
  outcome :: "string option"
  nodeid :: "string option"
  call :: "CallRecord option"

record TestRunReport =
  summary :: "(pyval \<times> pyval) list option"
  tests :: "TestCaseRecord list option"

definition extract_test_run_details :: "TestRunReport \<Rightarrow> error + string" where
  "extract_test_run_details details =
     (case summary details of
        None \<Rightarrow> Inl (KeyError ''summary'')
      | Some summary_details \<Rightarrow> Inr (extract_details summary_details))"


section \<open>The failing-test extractor\<close>

text \<open>
  One iteration of the loop of \<open>extract_failing_test_details\<close>, on the two variables the
  loop updates: the string built so far and the path of the failing test. The keys are
  read in the order of the source, so the first missing one is the error.
\<close>

definition failing_test_step ::
  "TestCaseRecord \<Rightarrow> string \<times> PurePath option \<Rightarrow> error + (string \<times> PurePath option)" where
  "failing_test_step test acc =
     (case acc of (failing_details_str, failing_test_path) \<Rightarrow>
      (case outcome test of
         None \<Rightarrow> Inl (KeyError ''outcome'')
       | Some oc \<Rightarrow>
          if oc = ''failed'' then
            (case nodeid test of
               None \<Rightarrow> Inl (KeyError ''nodeid'')
             | Some failing_test_nodeid \<Rightarrow>
            (case call test of
               None \<Rightarrow> Inl (KeyError ''call'')
             | Some failing_test_call \<Rightarrow>
            (case crash failing_test_call of
               None \<Rightarrow> Inl (KeyError ''crash'')
             | Some failing_test_crash \<Rightarrow>
            (case path failing_test_crash of
               None \<Rightarrow> Inl (KeyError ''path'')
             | Some p \<Rightarrow>
            (case lineno failing_test_crash of
               None \<Rightarrow> Inl (KeyError ''lineno'')
             | Some failing_test_lineno \<Rightarrow>
            (case message failing_test_crash of
               None \<Rightarrow> Inl (KeyError ''message'')
             | Some failing_test_message \<Rightarrow>
                 Inr (failing_details_str
                        @ ''  Name: '' @ failing_test_nodeid @ ''\<newline>''
                        @ ''  Path: '' @ path_to_string (Path [p]) 4 @ ''\<newline>''
                        @ ''  Line number: '' @ str_int failing_test_lineno @ ''\<newline>''
                        @ ''  Message: '' @ failing_test_message @ ''\<newline>'',
                      Some (Path [p]))))))))
          else Inr (failing_details_str, failing_test_path)))"

fun failing_tests_loop ::
  "TestCaseRecord list \<Rightarrow> string \<times> PurePath option \<Rightarrow> error + (string \<times> PurePath option)" where
  "failing_tests_loop [] acc = Inr acc"
| "failing_tests_loop (test # rest) acc =
     (case failing_test_step test acc of
        Inl e \<Rightarrow> Inl e
      | Inr acc' \<Rightarrow> failing_tests_loop rest acc')"

definition extract_failing_test_details ::
  "TestRunReport \<Rightarrow> error + (string \<times> PurePath option)" where
  "extract_failing_test_details details =
     (case tests details of
        None \<Rightarrow> Inl (KeyError ''tests'')
      | Some ts \<Rightarrow> failing_tests_loop ts (''\<newline>'', None))"

definition is_failing_test_details_empty :: "string \<Rightarrow> bool" where
  "is_failing_test_details_empty details = (if details = ''\<newline>'' then True else False)"


section \<open>The run command, after the test run\<close>

text \<open>
  What \<open>run\<close> does with the report once the test runner has produced it: the shell
  commands it hands to \<^verbatim>\<open>subprocess.run\<close> for the source lookup, and the exit code.
  Printing and the output of the subprocess are outside the model. An f-string renders a
  path with \<^verbatim>\<open>str\<close> and \<^verbatim>\<open>None\<close> as the word None.
\<close>

record RunResult =
  commands :: "string list"
  return_code :: int

definition run :: "TestRunReport \<Rightarrow> error + RunResult" where
  "run report =
     (case extract_test_run_details report of
        Inl e \<Rightarrow> Inl e
      | Inr test_run_details \<Rightarrow>
     (case extract_failing_test_details report of
        Inl e \<Rightarrow> Inl e
      | Inr (failing_test_details, failing_test_path) \<Rightarrow>
          if is_failing_test_details_empty failing_test_details
          then Inr \<lparr>commands = [], return_code = 0\<rparr>
          else Inr \<lparr>commands =
                      [''symbex test_find_minimum_value -f ''
                         @ (case failing_test_path of
                              None \<Rightarrow> ''None''
                            | Some p \<Rightarrow> as_posix p)],
                    return_code = 1\<rparr>))"


section \<open>The assertion extractor\<close>

text \<open>
  Modelled from the spec: the module \<^verbatim>\<open>execexam.extract\<close> with
  \<^verbatim>\<open>extract_test_assertion_details\<close> and \<^verbatim>\<open>extract_test_assertion_details_list\<close> is not
  among the sources; only its tests are. The spec renders each key/value of one assertion
  mapping as a line, the first with the bullet \<^verbatim>\<open>  - \<close> and every later one with four
  spaces, in the mapping's key order; the flag \<open>first\<close> says whether the bullet is still
  to be written. The list-level formatter concatenates the blocks in sequence order.
\<close>

fun assertion_lines :: "bool \<Rightarrow> (pyval \<times> pyval) list \<Rightarrow> string" where
  "assertion_lines first [] = []"
| "assertion_lines first ((key, val) # items) =
     (if first then ''  - '' else ''    '') @ py_str key @ '': '' @ py_str val @ ''\<newline>''
       @ assertion_lines False items"

definition extract_test_assertion_details :: "(pyval \<times> pyval) list \<Rightarrow> string" where
  "extract_test_assertion_details test_details = assertion_lines True test_details"

fun extract_test_assertion_details_list :: "(pyval \<times> pyval) list list \<Rightarrow> string" where
  "extract_test_assertion_details_list [] = []"
| "extract_test_assertion_details_list (d # ds) =
     extract_test_assertion_details d @ extract_test_assertion_details_list ds"


section \<open>Notions used to state the properties\<close>

text \<open>
  The failing tests of a report in report order, the crash record of a test
  (\<^verbatim>\<open>call.crash\<close>), its path, and the block of four lines that the claims describe for a
  failing test: name, elided path, line number and message, each ended by a newline.
\<close>

definition failed_tests :: "TestCaseRecord list \<Rightarrow> TestCaseRecord list" where
  "failed_tests ts = filter (\<lambda>t. outcome t = Some ''failed'') ts"

definition call_crash :: "TestCaseRecord \<Rightarrow> CrashRecord option" where
  "call_crash t = (case call t of None \<Rightarrow> None | Some c \<Rightarrow> crash c)"

definition crash_path :: "TestCaseRecord \<Rightarrow> PurePath option" where
  "crash_path t =
     (case call_crash t of
        None \<Rightarrow> None
      | Some cr \<Rightarrow> (case path cr of None \<Rightarrow> None | Some p \<Rightarrow> Some (Path [p])))"

definition failing_test_block :: "TestCaseRecord \<Rightarrow> string option" where
  "failing_test_block t =
     (case nodeid t of None \<Rightarrow> None | Some n \<Rightarrow>
     (case call_crash t of None \<Rightarrow> None | Some cr \<Rightarrow>
     (case path cr of None \<Rightarrow> None | Some p \<Rightarrow>
     (case lineno cr of None \<Rightarrow> None | Some l \<Rightarrow>
     (case message cr of None \<Rightarrow> None | Some m \<Rightarrow>
        Some (''  Name: '' @ n @ ''\<newline>''
              @ ''  Path: '' @ path_to_string (Path [p]) 4 @ ''\<newline>''
              @ ''  Line number: '' @ str_int l @ ''\<newline>''
              @ ''  Message: '' @ m @ ''\<newline>''))))))"

text \<open>
  The display string as the spec words it: the leading newline, then the blocks, each
  separated from the next by a blank line.
\<close>

definition blank_line_separated :: "string list \<Rightarrow> string" where
  "blank_line_separated blocks = ''\<newline>'' @ str_join ''\<newline>'' blocks"

text \<open>Concrete reports: builders for a test-case record with and without crash data.\<close>

definition crashed_test :: "string \<Rightarrow> string \<Rightarrow> string option \<Rightarrow> int \<Rightarrow> string \<Rightarrow> TestCaseRecord" where
  "crashed_test oc n p l m =
     \<lparr>outcome = Some oc, nodeid = Some n,
      call = Some \<lparr>crash = Some \<lparr>path = p, lineno = Some l, message = Some m\<rparr>\<rparr>\<rparr>"

definition plain_test :: "string \<Rightarrow> string \<Rightarrow> TestCaseRecord" where
  "plain_test oc n = \<lparr>outcome = Some oc, nodeid = Some n, call = Some \<lparr>crash = None\<rparr>\<rparr>"

text \<open>The report of the repository's own test of the failing-test extractor.\<close>

definition repository_test_report :: TestRunReport where
  "repository_test_report =
     \<lparr>summary = None,
      tests = Some
        [crashed_test ''failed'' ''test_module.py::test_function'' None 10 ''AssertionError'',
         crashed_test ''passed'' ''test_module.py::test_function2'' None 20 ''AssertionError'']\<rparr>"

text \<open>A report with two failing tests around a passing one that carries crash data.\<close>

definition two_failures_report :: TestRunReport where
  "two_failures_report =
     \<lparr>summary = Some [(PyStr ''failed'', PyInt 2), (PyStr ''passed'', PyInt 1)],
      tests = Some
        [crashed_test ''failed'' ''a.py::t1'' (Some ''/x/a.py'') 10 ''m1'',
         crashed_test ''passed'' ''a.py::t2'' (Some ''/x/a.py'') 20 ''m'',
         crashed_test ''failed'' ''b.py::t3'' (Some ''/x/b.py'') 3 ''m2'']\<rparr>"


section \<open>Lemmas about the loops\<close>

lemma step_not_failed:
  "outcome t = Some oc \<Longrightarrow> oc \<noteq> ''failed'' \<Longrightarrow> failing_test_step t acc = Inr acc"
  by (cases acc) (simp add: failing_test_step_def)

lemma step_failed_Inr:
  "outcome t = Some ''failed'' \<Longrightarrow>
     (failing_test_step t (s, p) = Inr (d, q)) =
     (\<exists>b. failing_test_block t = Some b \<and> d = s @ b \<and> q = crash_path t)"
  by (auto simp: failing_test_step_def failing_test_block_def crash_path_def call_crash_def
      split: option.splits)

lemma step_no_outcome: "outcome t = None \<Longrightarrow> failing_test_step t acc = Inl (KeyError ''outcome'')"
  by (cases acc) (simp add: failing_test_step_def)

lemma failed_tests_simps:
  "failed_tests [] = []"
  "outcome t = Some ''failed'' \<Longrightarrow> failed_tests (t # ts) = t # failed_tests ts"
  "outcome t \<noteq> Some ''failed'' \<Longrightarrow> failed_tests (t # ts) = failed_tests ts"
  by (simp_all add: failed_tests_def)

lemma loop_result:
  "failing_tests_loop ts (s, p) = Inr (d, q) \<Longrightarrow>
     \<exists>bs. map failing_test_block (failed_tests ts) = map Some bs \<and> d = s @ concat bs \<and>
          q = (if failed_tests ts = [] then p else crash_path (last (failed_tests ts)))"
proof (induction ts arbitrary: s p)
  case Nil
  then show ?case by (simp add: failed_tests_simps)
next
  case (Cons t ts)
  show ?case
  proof (cases "outcome t = Some ''failed''")
    case True
    from Cons.prems obtain s' p' where
      st: "failing_test_step t (s, p) = Inr (s', p')" and
      lp: "failing_tests_loop ts (s', p') = Inr (d, q)"
      by (auto split: sum.splits)
    from st True obtain b where b: "failing_test_block t = Some b" "s' = s @ b" "p' = crash_path t"
      by (auto simp: step_failed_Inr)
    from Cons.IH [OF lp] obtain bs where
      bs: "map failing_test_block (failed_tests ts) = map Some bs" "d = s' @ concat bs"
        "q = (if failed_tests ts = [] then p' else crash_path (last (failed_tests ts)))"
      by blast
    have "map failing_test_block (failed_tests (t # ts)) = map Some (b # bs)"
      using True b bs by (simp add: failed_tests_simps)
    moreover have "d = s @ concat (b # bs)" using b bs by simp
    moreover have "q = (if failed_tests (t # ts) = [] then p
                        else crash_path (last (failed_tests (t # ts))))"
      using True b bs by (auto simp: failed_tests_simps)
    ultimately show ?thesis by blast
  next
    case False
    show ?thesis
    proof (cases "outcome t")
      case None
      with Cons.prems show ?thesis by (simp add: step_no_outcome)
    next
      case (Some oc)
      with False have ne: "oc \<noteq> ''failed''" by simp
      from Cons.prems Some ne have "failing_tests_loop ts (s, p) = Inr (d, q)"
        by (simp add: step_not_failed)
      from Cons.IH [OF this] show ?thesis using False by (auto simp: failed_tests_simps)
    qed
  qed
qed

lemma loop_succeeds:
  "list_all (\<lambda>t. outcome t \<noteq> None) ts \<Longrightarrow>
   map failing_test_block (failed_tests ts) = map Some bs \<Longrightarrow>
     \<exists>q. failing_tests_loop ts (s, p) = Inr (s @ concat bs, q)"
proof (induction ts arbitrary: s p bs)
  case Nil
  then show ?case by (simp add: failed_tests_simps)
next
  case (Cons t ts)
  show ?case
  proof (cases "outcome t = Some ''failed''")
    case True
    with Cons.prems(2) obtain b bs' where
      b: "bs = b # bs'" "failing_test_block t = Some b"
        "map failing_test_block (failed_tests ts) = map Some bs'"
      by (auto simp: failed_tests_simps)
    have st: "failing_test_step t (s, p) = Inr (s @ b, crash_path t)"
      using True b by (simp add: step_failed_Inr)
    from Cons.prems(1) have "list_all (\<lambda>t. outcome t \<noteq> None) ts" by simp
    from Cons.IH [OF this b(3), of "s @ b" "crash_path t"]
    show ?thesis using st b by simp
  next
    case False
    from Cons.prems(1) obtain oc where oc: "outcome t = Some oc" by auto
    with False have ne: "oc \<noteq> ''failed''" by simp
    from Cons.prems(1) have a: "list_all (\<lambda>t. outcome t \<noteq> None) ts" by simp
    from Cons.prems(2) False
    have b: "map failing_test_block (failed_tests ts) = map Some bs"
      by (simp add: failed_tests_simps)
    from Cons.IH [OF a b, of s p] show ?thesis
      using oc ne by (simp add: step_not_failed)
  qed
qed

lemma loop_has_outcomes:
  "failing_tests_loop ts acc = Inr res \<Longrightarrow> list_all (\<lambda>t. outcome t \<noteq> None) ts"
proof (induction ts arbitrary: acc)
  case Nil
  then show ?case by simp
next
  case (Cons t ts)
  then show ?case
    by (cases "outcome t") (auto simp: step_no_outcome split: sum.splits)
qed

lemma block_not_empty: "failing_test_block t = Some b \<Longrightarrow> b \<noteq> []"
  by (auto simp: failing_test_block_def split: option.splits)

lemma block_crash_path: "failing_test_block t = Some b \<Longrightarrow> crash_path t \<noteq> None"
  by (auto simp: failing_test_block_def crash_path_def split: option.splits)

lemma blocks_empty_iff:
  assumes m: "map failing_test_block fs = map Some bs"
  shows "(concat bs = []) = (fs = [])"
proof (cases fs)
  case Nil
  with m show ?thesis by simp
next
  case (Cons f fs')
  with m obtain b bs' where "bs = b # bs'" "failing_test_block f = Some b" by auto
  with Cons show ?thesis using block_not_empty [of f b] by simp
qed

lemma blocks_last_crash_path:
  "map failing_test_block fs = map Some bs \<Longrightarrow> fs \<noteq> [] \<Longrightarrow> crash_path (last fs) \<noteq> None"
proof -
  assume m: "map failing_test_block fs = map Some bs" and ne: "fs \<noteq> []"
  from ne have "last fs \<in> set fs" by simp
  then have "failing_test_block (last fs) \<in> set (map failing_test_block fs)" by simp
  with m have "failing_test_block (last fs) \<in> set (map Some bs)" by simp
  then obtain b where "failing_test_block (last fs) = Some b" by auto
  then show ?thesis by (rule block_crash_path)
qed

lemma repository_test_report_value:
  "extract_failing_test_details repository_test_report = Inl (KeyError ''path'')"
  by code_simp

lemma two_failures_report_value:
  "extract_failing_test_details two_failures_report =
     Inr (''\<newline>  Name: a.py::t1\<newline>  Path: /x/a.py\<newline>  Line number: 10\<newline>  Message: m1\<newline>  Name: b.py::t3\<newline>  Path: /x/b.py\<newline>  Line number: 3\<newline>  Message: m2\<newline>'',
          Some \<lparr>root = ''/'', tail = [''x'', ''b.py'']\<rparr>)"
  by code_simp

lemma extract_details_loop_map:
  "extract_details_loop m out = out @ map (\<lambda>(k, v). py_str v @ '' '' @ py_str k) m"
  by (induction m arbitrary: out) auto

lemma loop_append:
  "failing_tests_loop (xs @ ys) acc =
     (case failing_tests_loop xs acc of Inl e \<Rightarrow> Inl e | Inr a \<Rightarrow> failing_tests_loop ys a)"
  by (induction xs arbitrary: acc) (auto split: sum.splits)

lemma step_failed_no_crash:
  "outcome t = Some ''failed'' \<Longrightarrow> call_crash t = None \<Longrightarrow>
     failing_test_step t acc =
       Inl (KeyError (if nodeid t = None then ''nodeid''
                      else if call t = None then ''call'' else ''crash''))"
  by (cases acc) (auto simp: failing_test_step_def call_crash_def split: option.splits)

lemma loop_fails_on_missing_crash:
  "t \<in> set ts \<Longrightarrow> outcome t = Some ''failed'' \<Longrightarrow> call_crash t = None \<Longrightarrow>
     \<exists>k. failing_tests_loop ts acc = Inl (KeyError k)"
proof (induction ts arbitrary: acc)
  case Nil
  then show ?case by simp
next
  case (Cons x ts)
  show ?case
  proof (cases "failing_test_step x acc")
    case (Inl e)
    then show ?thesis by (cases e) simp
  next
    case (Inr acc')
    with Cons.prems have "t \<noteq> x" by (auto simp: step_failed_no_crash)
    with Cons.prems have "t \<in> set ts" by simp
    from Cons.IH [OF this Cons.prems(2,3), of acc'] Inr show ?thesis by simp
  qed
qed

lemma loop_skips_prefix:
  "list_all (\<lambda>t. outcome t \<noteq> None) pre \<Longrightarrow> failed_tests pre = [] \<Longrightarrow>
     failing_tests_loop (pre @ rest) acc = failing_tests_loop rest acc"
proof (induction pre)
  case Nil
  then show ?case by simp
next
  case (Cons x pre)
  from Cons.prems(1) obtain oc where oc: "outcome x = Some oc" by auto
  from Cons.prems(2) oc have ne: "oc \<noteq> ''failed''"
    by (auto simp: failed_tests_def)
  with Cons.prems oc have "failed_tests pre = []" "list_all (\<lambda>t. outcome t \<noteq> None) pre"
    by (auto simp: failed_tests_simps)
  with Cons.IH show ?case using oc ne by (simp add: step_not_failed)
qed

lemma str_int_2: "str_int 2 = ''2''"
  by code_simp

lemma two_failures_failed_tests:
  "failed_tests
     [crashed_test ''failed'' ''a.py::t1'' (Some ''/x/a.py'') 10 ''m1'',
      crashed_test ''passed'' ''a.py::t2'' (Some ''/x/a.py'') 20 ''m'',
      crashed_test ''failed'' ''b.py::t3'' (Some ''/x/b.py'') 3 ''m2''] =
     [crashed_test ''failed'' ''a.py::t1'' (Some ''/x/a.py'') 10 ''m1'',
      crashed_test ''failed'' ''b.py::t3'' (Some ''/x/b.py'') 3 ''m2'']"
  by (simp add: failed_tests_def crashed_test_def)

lemma two_failures_tests:
  "tests two_failures_report = Some
     [crashed_test ''failed'' ''a.py::t1'' (Some ''/x/a.py'') 10 ''m1'',
      crashed_test ''passed'' ''a.py::t2'' (Some ''/x/a.py'') 20 ''m'',
      crashed_test ''failed'' ''b.py::t3'' (Some ''/x/b.py'') 3 ''m2'']"
  by (simp add: two_failures_report_def)

lemma as_posix_b: "as_posix \<lparr>root = ''/'', tail = [''x'', ''b.py'']\<rparr> = ''/x/b.py''"
  by (simp add: as_posix_def)

lemma crash_path_b:
  "crash_path (crashed_test ''failed'' ''b.py::t3'' (Some ''/x/b.py'') 3 ''m2'') =
     Some \<lparr>root = ''/'', tail = [''x'', ''b.py'']\<rparr>"
  by code_simp


section \<open>Lemmas about the path elider\<close>

text \<open>
  Every segment of a parsed path is non-empty, is not \<^verbatim>\<open>.\<close> and holds no slash, so the
  last segments of a path are read back unchanged when the elider builds the new path
  from the marker and them. For a depth of at least 1 the elider therefore returns the
  path itself when it has at most that many segments, and otherwise the marker followed
  by exactly the last segments.
\<close>

lemma split_sep_not_Nil: "split_sep c s \<noteq> []"
  by (induction s) (auto split: list.splits)

lemma split_sep_no_sep: "x \<in> set (split_sep c s) \<Longrightarrow> c \<notin> set x"
proof (induction s arbitrary: x)
  case Nil
  then show ?case by simp
next
  case (Cons a s)
  then show ?case
    by (cases "split_sep c s") (auto simp: split_sep_not_Nil split: if_splits)
qed

lemma split_sep_segment: "c \<notin> set x \<Longrightarrow> split_sep c (x @ c # rest) = x # split_sep c rest"
  by (induction x) auto

lemma split_sep_single: "c \<notin> set x \<Longrightarrow> split_sep c x = [x]"
  by (induction x) auto

lemma split_sep_join:
  "segs \<noteq> [] \<Longrightarrow> list_all (\<lambda>x. c \<notin> set x) segs \<Longrightarrow> split_sep c (str_join [c] segs) = segs"
proof (induction "[c]" segs rule: str_join.induct)
  case 1
  then show ?case by simp
next
  case (2 x)
  then show ?case by (simp add: split_sep_single)
next
  case (3 x y ys)
  then show ?case by (simp add: split_sep_segment)
qed

lemma str_join_Cons:
  "str_join sep (a # bs) = a @ concat (map (\<lambda>b. sep @ b) bs)"
  by (induction bs arbitrary: a) auto

lemma posix_join_segments:
  "pre \<noteq> [] \<Longrightarrow> last pre \<noteq> CHR ''/'' \<Longrightarrow>
   list_all (\<lambda>b. b \<noteq> [] \<and> CHR ''/'' \<notin> set b) bs \<Longrightarrow>
     posix_join pre bs = pre @ concat (map (\<lambda>b. ''/'' @ b) bs)"
proof (induction bs arbitrary: pre)
  case Nil
  then show ?case by simp
next
  case (Cons b bs)
  from Cons.prems(3) have b: "b \<noteq> []" "CHR ''/'' \<notin> set b"
    and bs: "list_all (\<lambda>b. b \<noteq> [] \<and> CHR ''/'' \<notin> set b) bs"
    by simp_all
  from b have hd: "take 1 b \<noteq> ''/''" by (cases b) auto
  from b have "last b \<in> set b" by simp
  with b have "last b \<noteq> CHR ''/''" by metis
  with b have lst: "last (pre @ ''/'' @ b) \<noteq> CHR ''/''" by simp
  have "posix_join pre (b # bs) = posix_join (pre @ ''/'' @ b) bs"
    using Cons.prems(1,2) hd by simp
  also have "\<dots> = (pre @ ''/'' @ b) @ concat (map (\<lambda>b. ''/'' @ b) bs)"
    using Cons.IH [of "pre @ ''/'' @ b"] lst bs by simp
  finally show ?case by simp
qed

lemma Path_marker:
  assumes "list_all (\<lambda>b. b \<noteq> [] \<and> b \<noteq> ''.'' \<and> CHR ''/'' \<notin> set b) bs"
  shows "Path (''<...>'' # bs) = \<lparr>root = [], tail = ''<...>'' # bs\<rparr>"
proof -
  from assms have ok: "list_all (\<lambda>b. b \<noteq> [] \<and> CHR ''/'' \<notin> set b) bs"
    by (induction bs) auto
  have j: "posix_join ''<...>'' bs = str_join ''/'' (''<...>'' # bs)"
    using posix_join_segments [OF _ _ ok, of "''<...>''"] by (simp add: str_join_Cons)
  have ne: "str_join ''/'' (''<...>'' # bs) \<noteq> []"
    by (simp add: str_join_Cons)
  have sr: "splitroot (str_join ''/'' (''<...>'' # bs)) = ([], str_join ''/'' (''<...>'' # bs))"
    by (simp add: splitroot_def str_join_Cons)
  from assms have all: "list_all (\<lambda>x. CHR ''/'' \<notin> set x) (''<...>'' # bs)"
    by (induction bs) auto
  have sp: "split_sep CHR ''/'' (str_join ''/'' (''<...>'' # bs)) = ''<...>'' # bs"
    using split_sep_join [OF _ all] by simp
  from assms have flt: "filter (\<lambda>x. x \<noteq> [] \<and> x \<noteq> ''.'') bs = bs"
    by (induction bs) auto
  show ?thesis
    using ne by (simp add: Path_def j parse_path_def sr sp flt del: str_join.simps)
qed

lemma tail_Path_segments:
  "list_all (\<lambda>b. b \<noteq> [] \<and> b \<noteq> ''.'' \<and> CHR ''/'' \<notin> set b) (tail (Path args))"
proof -
  have "list_all (\<lambda>b. b \<noteq> [] \<and> b \<noteq> ''.'' \<and> CHR ''/'' \<notin> set b)
          (filter (\<lambda>x. x \<noteq> [] \<and> x \<noteq> ''.'') (split_sep CHR ''/'' s))" for s
    using split_sep_no_sep [of _ "CHR ''/''" s] by (auto simp: list_all_iff)
  then show ?thesis
    by (simp add: Path_def parse_path_def split: prod.splits)
qed

lemma parts_suffix:
  assumes "1 \<le> N" and "N < int (length (parts p))"
  shows "slice_from (- N) (parts p) = drop (length (parts p) - nat N) (parts p)"
    and "\<exists>k. drop (length (parts p) - nat N) (parts p) = drop k (tail p)"
proof -
  from assms show "slice_from (- N) (parts p) = drop (length (parts p) - nat N) (parts p)"
    by (simp add: slice_from_def Let_def nat_diff_distrib')
  show "\<exists>k. drop (length (parts p) - nat N) (parts p) = drop k (tail p)"
  proof (cases "root p = []")
    case True
    then show ?thesis by (auto simp: parts_def)
  next
    case False
    with assms have "length (parts p) - nat N = Suc (length (tail p) - nat N)"
      by (auto simp: parts_def)
    with False show ?thesis by (auto simp: parts_def)
  qed
qed

lemma path_to_string_elides:
  assumes "1 \<le> N"
  shows "path_to_string (Path args) N =
           (if int (length (parts (Path args))) \<le> N then as_posix (Path args)
            else str_join ''/''
                   (''<...>'' # drop (length (parts (Path args)) - nat N) (parts (Path args))))"
proof (cases "int (length (parts (Path args))) \<le> N")
  case True
  then show ?thesis by (simp add: path_to_string_def)
next
  case False
  then have gt: "N < int (length (parts (Path args)))" by simp
  let ?sfx = "drop (length (parts (Path args)) - nat N) (parts (Path args))"
  from parts_suffix [OF assms gt] obtain k where
    sl: "slice_from (- N) (parts (Path args)) = ?sfx" and k: "?sfx = drop k (tail (Path args))"
    by blast
  have "list_all (\<lambda>b. b \<noteq> [] \<and> b \<noteq> ''.'' \<and> CHR ''/'' \<notin> set b) (drop k (tail (Path args)))"
    using tail_Path_segments [of args] by (auto simp: list_all_iff dest: in_set_dropD)
  with k have ok: "list_all (\<lambda>b. b \<noteq> [] \<and> b \<noteq> ''.'' \<and> CHR ''/'' \<notin> set b) ?sfx" by simp
  have "as_posix (Path (''<...>'' # ?sfx)) = str_join ''/'' (''<...>'' # ?sfx)"
    by (simp add: Path_marker [OF ok] as_posix_def str_join_Cons)
  with gt sl show ?thesis by (simp add: path_to_string_def Let_def del: str_join.simps)
qed

lemma no_failed_tests_sentinel:
  "tests r = Some ts \<Longrightarrow> list_all (\<lambda>t. outcome t \<noteq> None) ts \<Longrightarrow> failed_tests ts = [] \<Longrightarrow>
     extract_failing_test_details r = Inr (''\<newline>'', None)"
  using loop_skips_prefix [of ts "[]" "(''\<newline>'', None)"]
  by (simp add: extract_failing_test_details_def)

lemma is_failing_test_details_empty_iff:
  "is_failing_test_details_empty details = (details = ''\<newline>'')"
  by (simp add: is_failing_test_details_empty_def)


section \<open>The claims\<close>

text \<open>
  C1. The claim: the second component of the result is an ordered sequence of
  \<open>{test_name, test_path}\<close> records, one per failing test, in the order of the display
  string. The code: on the report of the repository's own test (a crash record without a
  path) the extractor raises \<^verbatim>\<open>KeyError('path')\<close>; on a report with two failing tests the
  display string has two blocks and the second component is one path, that of the last
  failing test.
\<close>

theorem second_component_is_one_path:
  "extract_failing_test_details repository_test_report = Inl (KeyError ''path'') \<and>
   extract_failing_test_details two_failures_report =
     Inr (''\<newline>  Name: a.py::t1\<newline>  Path: /x/a.py\<newline>  Line number: 10\<newline>  Message: m1\<newline>  Name: b.py::t3\<newline>  Path: /x/b.py\<newline>  Line number: 3\<newline>  Message: m2\<newline>'',
          Some \<lparr>root = ''/'', tail = [''x'', ''b.py'']\<rparr>)"
  using repository_test_report_value two_failures_report_value by simp

text \<open>
  C2. The claim: with no failing test the result is the newline string and an empty
  structured list, and the emptiness check is true exactly for the newline string. The
  code: the string is the newline and the check compares with it, but the second
  component is \<^verbatim>\<open>None\<close>, not a list.
\<close>

theorem no_failures_second_component_None:
  "extract_failing_test_details \<lparr>summary = None, tests = Some []\<rparr> = Inr (''\<newline>'', None) \<and>
   extract_failing_test_details
     \<lparr>summary = None, tests = Some [plain_test ''passed'' ''a.py::t1'']\<rparr> = Inr (''\<newline>'', None) \<and>
   is_failing_test_details_empty ''\<newline>'' \<and>
   \<not> is_failing_test_details_empty []"
  by (simp add: extract_failing_test_details_def failing_test_step_def plain_test_def
      is_failing_test_details_empty_def)

text \<open>
  C3. The claim: the detail formatter returns the empty string for an empty mapping. The
  code: it returns the prefix \<^verbatim>\<open>Details: \<close>, also through the summary extractor, where
  the repository's test expects the empty string.
\<close>

theorem extract_details_empty_mapping:
  "extract_details [] = ''Details: '' \<and>
   extract_test_run_details \<lparr>summary = Some [], tests = None\<rparr> = Inr ''Details: ''"
  by (simp add: extract_details_def extract_test_run_details_def)

text \<open>
  C6. The claim: for every depth N a path with more than N segments is rendered as the
  marker followed by exactly its last N segments. The code at depth 0: the slice
  \<^verbatim>\<open>parts[-0:]\<close> is the whole tuple, so a relative path keeps all its segments after the
  marker, and for an absolute path the root segment resets the new path and the marker
  is lost. (For every depth from 1 on the code does what the claim says:
  \<open>path_to_string_elides\<close>.)
\<close>

theorem elide_depth_zero:
  "path_to_string (Path [''/a'']) 0 = ''/a'' \<and>
   path_to_string (Path [''a/b'']) 0 = ''<...>/a/b''"
  by code_simp


text \<open>
  C4. A report in which a test with outcome \<^verbatim>\<open>failed\<close> lacks \<^verbatim>\<open>call.crash\<close> makes the
  failing-test extractor raise: the result is always an error, never a pair. When that
  test is the first failing one and has a nodeid, the error is the \<^verbatim>\<open>KeyError\<close> of the
  missing key, \<^verbatim>\<open>call\<close> or \<^verbatim>\<open>crash\<close>. A report without \<^verbatim>\<open>summary\<close> makes the summary
  extractor raise \<^verbatim>\<open>KeyError('summary')\<close>. The run command catches neither: it ends with
  the same error.
\<close>

theorem missing_data_raises:
  "(tests r = Some ts \<and> t \<in> set ts \<and> outcome t = Some ''failed'' \<and> call_crash t = None
      \<longrightarrow> (\<exists>k. extract_failing_test_details r = Inl (KeyError k))) \<and>
   (tests r = Some (pre @ t # post) \<and> list_all (\<lambda>t. outcome t \<noteq> None) pre \<and>
    failed_tests pre = [] \<and> outcome t = Some ''failed'' \<and> nodeid t \<noteq> None \<and>
    call_crash t = None
      \<longrightarrow> extract_failing_test_details r =
            Inl (KeyError (if call t = None then ''call'' else ''crash''))) \<and>
   (summary r = None
      \<longrightarrow> extract_test_run_details r = Inl (KeyError ''summary'') \<and>
          run r = Inl (KeyError ''summary'')) \<and>
   (summary r \<noteq> None \<and> extract_failing_test_details r = Inl e \<longrightarrow> run r = Inl e)"
proof (intro conjI impI)
  assume "tests r = Some ts \<and> t \<in> set ts \<and> outcome t = Some ''failed'' \<and> call_crash t = None"
  then show "\<exists>k. extract_failing_test_details r = Inl (KeyError k)"
    using loop_fails_on_missing_crash [of t ts "(''\<newline>'', None)"]
    by (simp add: extract_failing_test_details_def)
next
  assume a: "tests r = Some (pre @ t # post) \<and> list_all (\<lambda>t. outcome t \<noteq> None) pre \<and>
    failed_tests pre = [] \<and> outcome t = Some ''failed'' \<and> nodeid t \<noteq> None \<and>
    call_crash t = None"
  then have "failing_tests_loop (pre @ t # post) (''\<newline>'', None) =
             failing_tests_loop (t # post) (''\<newline>'', None)"
    by (simp add: loop_skips_prefix)
  with a show "extract_failing_test_details r =
            Inl (KeyError (if call t = None then ''call'' else ''crash''))"
    by (auto simp: extract_failing_test_details_def step_failed_no_crash)
next
  assume "summary r = None"
  then show "extract_test_run_details r = Inl (KeyError ''summary'')"
    by (simp add: extract_test_run_details_def)
next
  assume "summary r = None"
  then show "run r = Inl (KeyError ''summary'')"
    by (simp add: run_def extract_test_run_details_def)
next
  assume "summary r \<noteq> None \<and> extract_failing_test_details r = Inl e"
  then show "run r = Inl e"
    by (auto simp: run_def extract_test_run_details_def)
qed

theorem missing_data_raises_witness:
  "extract_failing_test_details
     \<lparr>summary = None,
      tests = Some [plain_test ''passed'' ''a.py::t1'', plain_test ''failed'' ''a.py::t2'']\<rparr>
     = Inl (KeyError ''crash'') \<and>
   extract_test_run_details
     \<lparr>summary = None,
      tests = Some [plain_test ''passed'' ''a.py::t1'', plain_test ''failed'' ''a.py::t2'']\<rparr>
     = Inl (KeyError ''summary'') \<and>
   run
     \<lparr>summary = None,
      tests = Some [plain_test ''passed'' ''a.py::t1'', plain_test ''failed'' ''a.py::t2'']\<rparr>
     = Inl (KeyError ''summary'')"
  using missing_data_raises
    [of "\<lparr>summary = None,
          tests = Some [plain_test ''passed'' ''a.py::t1'', plain_test ''failed'' ''a.py::t2'']\<rparr>"
        "[plain_test ''passed'' ''a.py::t1'', plain_test ''failed'' ''a.py::t2'']"
        "plain_test ''failed'' ''a.py::t2''"
        "[plain_test ''passed'' ''a.py::t1'']" "[]"]
  by (simp add: plain_test_def failed_tests_def call_crash_def)

text \<open>
  C7. For a report with a summary mapping the summary extractor returns the detail
  formatter's result on that mapping, and the rendered items are exactly the entries of
  the mapping, one \<^verbatim>\<open>value key\<close> item per entry, in the mapping's order: nothing is
  filtered, reordered or added.
\<close>

theorem summary_pass_through:
  "summary r = Some m \<Longrightarrow>
     extract_test_run_details r = Inr (extract_details m) \<and>
     extract_details m =
       ''Details: '' @ str_join '', '' (map (\<lambda>(k, v). py_str v @ '' '' @ py_str k) m)"
  by (simp add: extract_test_run_details_def extract_details_def extract_details_loop_map)

theorem summary_pass_through_witness:
  "extract_test_run_details
     \<lparr>summary = Some [(PyStr ''passed'', PyInt 2), (PyStr ''total'', PyInt 2),
                       (PyStr ''collected'', PyInt 2)],
      tests = None\<rparr>
   = Inr ''Details: 2 passed, 2 total, 2 collected''"
  using summary_pass_through
    [of "\<lparr>summary = Some [(PyStr ''passed'', PyInt 2), (PyStr ''total'', PyInt 2),
                       (PyStr ''collected'', PyInt 2)], tests = None\<rparr>"
        "[(PyStr ''passed'', PyInt 2), (PyStr ''total'', PyInt 2), (PyStr ''collected'', PyInt 2)]"]
  by (simp add: str_int_2)

text \<open>
  C8. A test-case record whose outcome is not \<^verbatim>\<open>failed\<close> contributes nothing: removing
  it from the report changes neither component of the result (nor an error), whatever
  its \<^verbatim>\<open>call\<close> field holds.
\<close>

theorem not_failed_contributes_nothing:
  "outcome t = Some oc \<Longrightarrow> oc \<noteq> ''failed'' \<Longrightarrow>
     extract_failing_test_details (r\<lparr>tests := Some (xs @ t # ys)\<rparr>) =
     extract_failing_test_details (r\<lparr>tests := Some (xs @ ys)\<rparr>)"
  by (simp add: extract_failing_test_details_def loop_append step_not_failed split: sum.splits)

theorem not_failed_contributes_nothing_witness:
  "extract_failing_test_details two_failures_report =
   extract_failing_test_details
     (two_failures_report
        \<lparr>tests := Some [crashed_test ''failed'' ''a.py::t1'' (Some ''/x/a.py'') 10 ''m1'',
                        crashed_test ''failed'' ''b.py::t3'' (Some ''/x/b.py'') 3 ''m2'']\<rparr>)"
  using not_failed_contributes_nothing
    [where t = "crashed_test ''passed'' ''a.py::t2'' (Some ''/x/a.py'') 20 ''m''"
       and oc = "''passed''" and r = two_failures_report
       and xs = "[crashed_test ''failed'' ''a.py::t1'' (Some ''/x/a.py'') 10 ''m1'']"
       and ys = "[crashed_test ''failed'' ''b.py::t3'' (Some ''/x/b.py'') 3 ''m2'']"]
  by (simp add: crashed_test_def two_failures_report_def)

text \<open>
  C9. The first entry of an assertion mapping is rendered with the bullet, every later
  entry with four spaces, in key order; the list-level formatter concatenates the blocks
  with nothing between them, as on the input of the repository's test.
\<close>

theorem assertion_blocks:
  "extract_test_assertion_details [] = [] \<and>
   extract_test_assertion_details ((k, v) # rest) =
     ''  - '' @ py_str k @ '': '' @ py_str v @ ''\<newline>''
       @ concat (map (\<lambda>(k, v). ''    '' @ py_str k @ '': '' @ py_str v @ ''\<newline>'') rest) \<and>
   extract_test_assertion_details_list ds = concat (map extract_test_assertion_details ds) \<and>
   extract_test_assertion_details_list
     [[(PyStr ''assertion1'', PyStr ''value1''), (PyStr ''assertion2'', PyStr ''value2'')],
      [(PyStr ''assertion3'', PyStr ''value3''), (PyStr ''assertion4'', PyStr ''value4'')]]
     = ''  - assertion1: value1\<newline>    assertion2: value2\<newline>  - assertion3: value3\<newline>    assertion4: value4\<newline>''"
proof -
  have rest: "assertion_lines False xs =
      concat (map (\<lambda>(k, v). ''    '' @ py_str k @ '': '' @ py_str v @ ''\<newline>'') xs)" for xs
    by (induction xs) auto
  have lst: "extract_test_assertion_details_list xs =
      concat (map extract_test_assertion_details xs)" for xs
    by (induction xs) auto
  show ?thesis
    by (simp add: extract_test_assertion_details_def rest lst)
qed


text \<open>
  C5, as the spec words it: consecutive blocks of failing tests are separated by a blank
  line. The code appends each block directly to the string: for the report with two
  failing tests the second block starts right after the newline that ends the first.
\<close>

theorem blocks_not_blank_line_separated:
  "map_sum id fst (extract_failing_test_details two_failures_report) =
     Inr (''\<newline>  Name: a.py::t1\<newline>  Path: /x/a.py\<newline>  Line number: 10\<newline>  Message: m1\<newline>  Name: b.py::t3\<newline>  Path: /x/b.py\<newline>  Line number: 3\<newline>  Message: m2\<newline>'') \<and>
   map_sum id fst (extract_failing_test_details two_failures_report) \<noteq>
     Inr (blank_line_separated
       [''  Name: a.py::t1\<newline>  Path: /x/a.py\<newline>  Line number: 10\<newline>  Message: m1\<newline>'',
        ''  Name: b.py::t3\<newline>  Path: /x/b.py\<newline>  Line number: 3\<newline>  Message: m2\<newline>''])"
  by (simp add: two_failures_report_value blank_line_separated_def)

text \<open>
  C5, amended: the extractor returns a pair exactly when every test has an outcome and
  every failing test has a nodeid and a crash record with path, line number and message;
  the display string is then the leading newline followed by the blocks of the failing
  tests in report order, each block being the four lines Name, Path (elided to depth 4),
  Line number and Message in this order, each ended by a newline, with nothing between
  consecutive blocks.
\<close>

theorem display_string_blocks:
  assumes "tests r = Some ts"
  shows "(\<exists>p. extract_failing_test_details r = Inr (d, p)) =
         (list_all (\<lambda>t. outcome t \<noteq> None) ts \<and>
          (\<exists>bs. map failing_test_block (failed_tests ts) = map Some bs \<and>
                d = ''\<newline>'' @ concat bs))"
proof
  assume "\<exists>p. extract_failing_test_details r = Inr (d, p)"
  then obtain p where "failing_tests_loop ts (''\<newline>'', None) = Inr (d, p)"
    using assms by (auto simp: extract_failing_test_details_def)
  then show "list_all (\<lambda>t. outcome t \<noteq> None) ts \<and>
          (\<exists>bs. map failing_test_block (failed_tests ts) = map Some bs \<and>
                d = ''\<newline>'' @ concat bs)"
    using loop_has_outcomes loop_result by blast
next
  assume "list_all (\<lambda>t. outcome t \<noteq> None) ts \<and>
          (\<exists>bs. map failing_test_block (failed_tests ts) = map Some bs \<and>
                d = ''\<newline>'' @ concat bs)"
  then obtain bs where a: "list_all (\<lambda>t. outcome t \<noteq> None) ts"
    and b: "map failing_test_block (failed_tests ts) = map Some bs"
    and d: "d = ''\<newline>'' @ concat bs"
    by blast
  from loop_succeeds [OF a b, of "''\<newline>''" None] d
  show "\<exists>p. extract_failing_test_details r = Inr (d, p)"
    using assms by (simp add: extract_failing_test_details_def)
qed

theorem display_string_blocks_witness:
  "list_all (\<lambda>t. outcome t \<noteq> None)
     [crashed_test ''failed'' ''a.py::t1'' (Some ''/x/a.py'') 10 ''m1'',
      crashed_test ''passed'' ''a.py::t2'' (Some ''/x/a.py'') 20 ''m'',
      crashed_test ''failed'' ''b.py::t3'' (Some ''/x/b.py'') 3 ''m2''] \<and>
   (\<exists>bs. map failing_test_block
           [crashed_test ''failed'' ''a.py::t1'' (Some ''/x/a.py'') 10 ''m1'',
            crashed_test ''failed'' ''b.py::t3'' (Some ''/x/b.py'') 3 ''m2''] = map Some bs \<and>
         ''\<newline>  Name: a.py::t1\<newline>  Path: /x/a.py\<newline>  Line number: 10\<newline>  Message: m1\<newline>  Name: b.py::t3\<newline>  Path: /x/b.py\<newline>  Line number: 3\<newline>  Message: m2\<newline>''
           = ''\<newline>'' @ concat bs)"
  using display_string_blocks [OF two_failures_tests,
      of "''\<newline>  Name: a.py::t1\<newline>  Path: /x/a.py\<newline>  Line number: 10\<newline>  Message: m1\<newline>  Name: b.py::t3\<newline>  Path: /x/b.py\<newline>  Line number: 3\<newline>  Message: m2\<newline>''"]
    two_failures_report_value
  by (simp add: two_failures_failed_tests)

text \<open>
  C10. When the extractor returns, its second component is one optional path: \<^verbatim>\<open>None\<close>
  exactly when no test has outcome \<^verbatim>\<open>failed\<close>, and otherwise the path object made from
  \<^verbatim>\<open>crash.path\<close> of the last failing test in report order. The run command issues no
  lookup command and exits with 0 when there is no failing test, and otherwise issues
  one command, with that one path, and exits with 1.
\<close>

theorem last_failing_path:
  assumes "tests r = Some ts" and "extract_failing_test_details r = Inr (d, p)"
  shows "p = (if failed_tests ts = [] then None else crash_path (last (failed_tests ts))) \<and>
         (p = None) = (failed_tests ts = []) \<and>
         (summary r = None \<or>
          run r = Inr \<lparr>commands =
                         (case p of None \<Rightarrow> []
                          | Some q \<Rightarrow> [''symbex test_find_minimum_value -f '' @ as_posix q]),
                       return_code = (if p = None then 0 else 1)\<rparr>)"
proof -
  from assms have lp: "failing_tests_loop ts (''\<newline>'', None) = Inr (d, p)"
    by (simp add: extract_failing_test_details_def)
  from loop_result [OF lp] obtain bs where
    bs: "map failing_test_block (failed_tests ts) = map Some bs"
    and d: "d = ''\<newline>'' @ concat bs"
    and p: "p = (if failed_tests ts = [] then None else crash_path (last (failed_tests ts)))"
    by blast
  have pn: "(p = None) = (failed_tests ts = [])"
    using p blocks_last_crash_path [OF bs] by auto
  have dn: "(d = ''\<newline>'') = (failed_tests ts = [])"
    using d blocks_empty_iff [OF bs] by simp
  have "run r = Inr \<lparr>commands =
                         (case p of None \<Rightarrow> []
                          | Some q \<Rightarrow> [''symbex test_find_minimum_value -f '' @ as_posix q]),
                       return_code = (if p = None then 0 else 1)\<rparr>"
    if "summary r \<noteq> None"
    using that assms(2) pn dn
    by (auto simp: run_def extract_test_run_details_def is_failing_test_details_empty_def
        split: option.splits)
  with p pn show ?thesis by blast
qed

theorem last_failing_path_witness:
  "crash_path (crashed_test ''failed'' ''b.py::t3'' (Some ''/x/b.py'') 3 ''m2'') =
     Some \<lparr>root = ''/'', tail = [''x'', ''b.py'']\<rparr> \<and>
   run two_failures_report =
     Inr \<lparr>commands = [''symbex test_find_minimum_value -f /x/b.py''], return_code = 1\<rparr>"
  using last_failing_path [OF two_failures_tests two_failures_report_value]
  by (simp add: two_failures_failed_tests as_posix_b crash_path_b two_failures_report_def)

end
